theory Spec2Isabelle
  imports Complex_Main "HOL-Library.Word"
begin

text \<open>
  The round scheduler of \<open>server.js\<close>: the crash point generator and its queue, the
  multiplier curve, the game loop (\<open>startWaiting\<close>, \<open>startFlying\<close> with its tick
  callback, \<open>doCrash\<close>), the broadcast to subscribers, and the handlers of
  \<open>/api/stream\<close>, \<open>/api/admin/force-crash\<close>, \<open>/api/admin/crash-pool\<close> and
  \<open>/api/signal\<close>. Functions that change the globals of the program take the state and
  return the new one.
\<close>

section \<open>JavaScript values\<close>

text \<open>
  A JavaScript number is modelled as a finite real or NaN: \<open>Some x\<close> is the number \<open>x\<close>,
  \<open>None\<close> is NaN. Rounding of doubles and the infinities are not modelled.
\<close>

type_synonym jsnum = "real option"

text \<open>
  A field of a parsed JSON request body; \<open>JUndefined\<close> is an absent field.
  String values are not modelled.
\<close>

datatype jsval =
    JUndefined
  | JNull
  | JBool bool
  | JNum real
  | JArr "jsval list"
  | JObj "(string \<times> jsval) list"

text \<open>
  \<open>parseFloat(v)\<close> scans the string form of \<open>v\<close>: a number gives itself, an array gives
  what its first element gives (the elements are joined by commas), everything else is NaN.
\<close>

fun parseFloat :: "jsval \<Rightarrow> jsnum" where
  "parseFloat (JNum x) = Some x"
| "parseFloat (JArr (v # vs)) = parseFloat v"
| "parseFloat _ = None"

text \<open>\<open>n || d\<close> on numbers: NaN and zero are falsy.\<close>

definition js_or :: "jsnum \<Rightarrow> real \<Rightarrow> jsnum" where
  "js_or n d = (case n of None \<Rightarrow> Some d | Some x \<Rightarrow> if x = 0 then Some d else Some x)"

text \<open>\<open>a >= b\<close>: false when either side is NaN.\<close>

definition js_ge :: "jsnum \<Rightarrow> jsnum \<Rightarrow> bool" where
  "js_ge a b = (case a of None \<Rightarrow> False
                | Some x \<Rightarrow> (case b of None \<Rightarrow> False | Some y \<Rightarrow> y \<le> x))"

text \<open>\<open>Math.min(a, b)\<close>: NaN when either argument is NaN.\<close>

definition Math_min :: "jsnum \<Rightarrow> jsnum \<Rightarrow> jsnum" where
  "Math_min a b = (case a of None \<Rightarrow> None
                   | Some x \<Rightarrow> (case b of None \<Rightarrow> None | Some y \<Rightarrow> Some (min x y)))"

text \<open>\<open>Math.round(x)\<close>: the nearest integer, a tie going up.\<close>

definition Math_round :: "real \<Rightarrow> int" where
  "Math_round x = \<lfloor>x + 1 / 2\<rfloor>"

text \<open>
  \<open>parseFloat(x.toFixed(2))\<close>: \<open>x\<close> to two decimals; \<open>toFixed\<close> strips the sign first,
  so a tie goes away from zero.
\<close>

definition toFixed2 :: "real \<Rightarrow> real" where
  "toFixed2 x = (if x < 0 then - (real_of_int \<lfloor>100 * (- x) + 1 / 2\<rfloor> / 100)
                 else real_of_int \<lfloor>100 * x + 1 / 2\<rfloor> / 100)"

text \<open>\<open>s.toUpperCase()\<close> on ASCII text.\<close>

definition upper_char :: "char \<Rightarrow> char" where
  "upper_char c = (let n = (of_char c :: nat) in
                   if 97 \<le> n \<and> n \<le> 122 then char_of (n - 32) else c)"

definition toUpperCase :: "string \<Rightarrow> string" where
  "toUpperCase s = map upper_char s"

section \<open>Data model\<close>

type_synonym uuid = string

datatype phase = Waiting | Flying | Crashed

text \<open>The value of \<open>game.status\<close>.\<close>

fun status_str :: "phase \<Rightarrow> string" where
  "status_str Waiting = ''waiting''"
| "status_str Flying = ''flying''"
| "status_str Crashed = ''crashed''"

text \<open>The global \<open>game\<close>; times are milliseconds since the epoch, \<open>None\<close> is \<open>null\<close>.\<close>

record round_state =
  roundId :: uuid
  status :: phase
  multiplier :: jsnum
  startTime :: "int option"
  crashPoint :: jsnum
  nextEventTime :: "int option"

text \<open>An element of \<open>crashQueue\<close>.\<close>

record entry =
  entry_id :: uuid
  entry_multiplier :: jsnum

text \<open>An element of \<open>history\<close>; its \<open>hash\<close> is always \<open>null\<close>.\<close>

record hist_entry =
  hist_id :: uuid
  hist_multiplier :: jsnum
  hist_timestamp :: int
  hist_server_seed :: uuid

text \<open>An element of the result of \<open>peekQueue\<close>; \<open>server_seed\<close> and \<open>hash\<close> are \<open>null\<close>.\<close>

record peeked =
  peek_id :: uuid
  peek_multiplier :: jsnum
  peek_status :: string
  peek_created_at :: int
  peek_domain_id :: string

text \<open>Server-sent events, with the fields of their payloads in source order.\<close>

datatype sse =
    RoundStart uuid int jsnum "peeked list" string
  | Heartbeat string "int option"
  | Fly uuid int jsnum string
  | Tick uuid jsnum int jsnum int
  | Crash uuid jsnum int

text \<open>The variables a tick callback closes over, and its own interval handle.\<close>

record tick_closure =
  cl_roundId :: uuid
  cl_crashPoint :: jsnum
  cl_startTime :: int
  cl_timer :: nat

datatype callback = CbStartFlying | CbStartWaiting

text \<open>
  The process state. Below the program's own variables come the effects it has on its
  surroundings (calls of \<open>res.write\<close>, live intervals, pending timeouts) and the sources
  it reads (random bytes, UUIDs, the clock, whether a client's \<open>write\<close> throws), and
  the secret drawn at startup.
\<close>

record server =
  game :: round_state
  crashQueue :: "entry list"
  history :: "hist_entry list"
  clients :: "nat list"
  writes :: "(nat \<times> sse) list"
  intervals :: "tick_closure list"
  timerSeq :: nat
  timeouts :: "(callback \<times> int) list"
  randomBytes4 :: "nat \<Rightarrow> 32 word"
  randomPos :: nat
  uuidSource :: "nat \<Rightarrow> uuid"
  uuidPos :: nat
  clock :: "nat \<Rightarrow> int"
  clockPos :: nat
  writeThrows :: "nat \<Rightarrow> bool"
  SIGNAL_SECRET :: string

section \<open>Sources\<close>

text \<open>\<open>crypto.randomBytes(4).readUInt32BE()\<close>\<close>

definition readUInt32BE :: "server \<Rightarrow> 32 word \<times> server" where
  "readUInt32BE s = (randomBytes4 s (randomPos s), s\<lparr>randomPos := randomPos s + 1\<rparr>)"

text \<open>\<open>crypto.randomUUID()\<close>\<close>

definition randomUUID :: "server \<Rightarrow> uuid \<times> server" where
  "randomUUID s = (uuidSource s (uuidPos s), s\<lparr>uuidPos := uuidPos s + 1\<rparr>)"

text \<open>\<open>Date.now()\<close>\<close>

definition Date_now :: "server \<Rightarrow> int \<times> server" where
  "Date_now s = (clock s (clockPos s), s\<lparr>clockPos := clockPos s + 1\<rparr>)"

section \<open>Configuration\<close>

definition QUEUE_SIZE :: nat where "QUEUE_SIZE = 10"
definition DOMAIN_ID :: string where "DOMAIN_ID = ''ef4fa632-149c-4556-a356-cd762746d350''"
definition ALGORITHM :: string where "ALGORITHM = ''greedy_1.05''"
definition WAIT_MS :: int where "WAIT_MS = 8000"
definition CRASH_PAUSE :: int where "CRASH_PAUSE = 5000"
definition TICK_MS :: int where "TICK_MS = 100"

section \<open>Crash point generator\<close>

text \<open>The arithmetic of \<open>generateCrashPoint\<close> on the two 32-bit draws.\<close>

definition crashPointOf :: "32 word \<Rightarrow> 32 word \<Rightarrow> real" where
  "crashPointOf w1 w2 =
     (let rand = real (unat w1) / 4294967295;
          fine = real (unat w2) / 4294967295;
          v = (if rand < 0.10 then 1.01 + fine * 8.99
               else if rand < 0.65 then 20 + fine * 40
               else if rand < 0.90 then 60 + fine * 90
               else 150 + fine * 400)
      in toFixed2 v)"

definition generateCrashPoint :: "server \<Rightarrow> real \<times> server" where
  "generateCrashPoint s =
     (let (w1, s1) = readUInt32BE s;
          (w2, s2) = readUInt32BE s1
      in (crashPointOf w1 w2, s2))"

section \<open>Crash queue\<close>

text \<open>One turn of the loop of \<open>fillQueue\<close>: the id is drawn before the multiplier.\<close>

definition pushGenerated :: "server \<Rightarrow> server" where
  "pushGenerated s =
     (let (u, s1) = randomUUID s;
          (m, s2) = generateCrashPoint s1
      in s2\<lparr>crashQueue := crashQueue s2 @ [\<lparr>entry_id = u, entry_multiplier = Some m\<rparr>]\<rparr>)"

function fillQueue :: "server \<Rightarrow> server" where
  "fillQueue s = (if length (crashQueue s) < QUEUE_SIZE then fillQueue (pushGenerated s) else s)"
  by pat_completeness auto
termination
  by (relation "measure (\<lambda>s. QUEUE_SIZE - length (crashQueue s))")
    (auto simp: pushGenerated_def generateCrashPoint_def readUInt32BE_def randomUUID_def
      Let_def split_def)

declare fillQueue.simps [simp del]

datatype js_error = TypeError

text \<open>
  \<open>nextCrashPoint\<close>. On an empty array \<open>shift()\<close> gives \<open>undefined\<close>, and
  \<open>entry.multiplier\<close> then throws, after the refill.
\<close>

definition nextCrashPoint :: "server \<Rightarrow> (js_error + jsnum) \<times> server" where
  "nextCrashPoint s =
     (let s1 = (if length (crashQueue s) = 0 then fillQueue s else s);
          (entry, s2) = (case crashQueue s1 of
                           [] \<Rightarrow> (None, s1)
                         | e # q \<Rightarrow> (Some e, s1\<lparr>crashQueue := q\<rparr>));
          s3 = fillQueue s2
      in (case entry of None \<Rightarrow> Inl TypeError | Some e \<Rightarrow> Inr (entry_multiplier e), s3))"

text \<open>
  \<open>peekQueue(count)\<close>; every caller uses the default \<open>count = 5\<close>. Each element reads
  the clock for its \<open>created_at\<close>.
\<close>

fun peekEntries :: "entry list \<Rightarrow> server \<Rightarrow> peeked list \<times> server" where
  "peekEntries [] s = ([], s)"
| "peekEntries (e # es) s =
     (let (t, s1) = Date_now s;
          (ps, s2) = peekEntries es s1
      in (\<lparr>peek_id = entry_id e, peek_multiplier = entry_multiplier e,
           peek_status = ''pending'', peek_created_at = t, peek_domain_id = DOMAIN_ID\<rparr> # ps, s2))"

definition peekQueue :: "nat \<Rightarrow> server \<Rightarrow> peeked list \<times> server" where
  "peekQueue count s = (let s1 = fillQueue s in peekEntries (take count (crashQueue s1)) s1)"

section \<open>Multiplier curve\<close>

text \<open>
  \<open>getMultiplierAtTime\<close>; \<open>Math.pow\<close> of a negative base with exponent 2.2 is NaN.
\<close>

definition getMultiplierAtTime :: "real \<Rightarrow> jsnum" where
  "getMultiplierAtTime seconds =
     (if seconds < 0 then None
      else Some (real_of_int (Math_round (100 * (1 + 0.0055 * seconds powr 2.2))) / 100))"

text \<open>
  The curve as the specification writes it, \<open>m(t) = round(100 (1 + k t^p)) / 100\<close> with
  \<open>k = 0.0055\<close> and \<open>p = 2.2\<close>, for comparison with the function above.
\<close>

definition curve_spec :: "real \<Rightarrow> real" where
  "curve_spec t = real_of_int (round (100 * (1 + 0.0055 * t powr 2.2))) / 100"

section \<open>Broadcast\<close>

text \<open>
  \<open>sendSSE\<close>: one call of \<open>res.write\<close>; a client whose \<open>write\<close> throws is deleted
  from \<open>clients\<close>.
\<close>

definition sendSSE :: "nat \<Rightarrow> sse \<Rightarrow> server \<Rightarrow> server" where
  "sendSSE res ev s =
     (let s1 = s\<lparr>writes := writes s @ [(res, ev)]\<rparr>
      in if writeThrows s1 res then s1\<lparr>clients := removeAll res (clients s1)\<rparr> else s1)"

definition broadcast :: "sse \<Rightarrow> server \<Rightarrow> server" where
  "broadcast ev s = fold (\<lambda>c. sendSSE c ev) (clients s) s"

section \<open>Timers\<close>

definition setTimeout :: "callback \<Rightarrow> int \<Rightarrow> server \<Rightarrow> server" where
  "setTimeout cb ms s = s\<lparr>timeouts := timeouts s @ [(cb, ms)]\<rparr>"

definition clearInterval :: "nat \<Rightarrow> server \<Rightarrow> server" where
  "clearInterval t s = s\<lparr>intervals := filter (\<lambda>c. cl_timer c \<noteq> t) (intervals s)\<rparr>"

section \<open>Game loop\<close>

definition startWaiting :: "server \<Rightarrow> (js_error + unit) \<times> server" where
  "startWaiting s =
     (case nextCrashPoint s of
        (Inl e, s1) \<Rightarrow> (Inl e, s1)
      | (Inr cp, s1) \<Rightarrow>
          (let (rid, s2) = randomUUID s1;
               (t, s3) = Date_now s2;
               nextTime = t + WAIT_MS;
               s4 = s3\<lparr>game := \<lparr>roundId = rid, status = Waiting, multiplier = Some 1,
                                  startTime = None, crashPoint = cp,
                                  nextEventTime = Some nextTime\<rparr>\<rparr>;
               (q, s5) = peekQueue 5 s4;
               s6 = broadcast (RoundStart rid nextTime cp q ALGORITHM) s5;
               s7 = broadcast (Heartbeat ''WAITING'' (Some nextTime)) s6
           in (Inr (), setTimeout CbStartFlying WAIT_MS s7)))"

definition doCrash :: "uuid \<Rightarrow> jsnum \<Rightarrow> server \<Rightarrow> server" where
  "doCrash rid finalMult s =
     (let (t, s1) = Date_now s;
          nextTime = t + CRASH_PAUSE;
          s2 = s1\<lparr>game := (game s1)\<lparr>status := Crashed, multiplier := finalMult,
                                     nextEventTime := Some nextTime\<rparr>\<rparr>;
          (ts, s3) = Date_now s2;
          (seed, s4) = randomUUID s3;
          h = \<lparr>hist_id = rid, hist_multiplier = finalMult, hist_timestamp = ts,
               hist_server_seed = seed\<rparr> # history s4;
          s5 = s4\<lparr>history := (if length h > 20 then butlast h else h)\<rparr>;
          s6 = broadcast (Crash rid finalMult nextTime) s5
      in setTimeout CbStartWaiting CRASH_PAUSE s6)"

text \<open>The callback that \<open>startFlying\<close> hands to \<open>setInterval\<close>.\<close>

definition tick :: "tick_closure \<Rightarrow> server \<Rightarrow> server" where
  "tick cl s =
     (if status (game s) \<noteq> Flying \<or> roundId (game s) \<noteq> cl_roundId cl
      then clearInterval (cl_timer cl) s
      else
        (let (t1, s1) = Date_now s;
             elapsed = real_of_int (t1 - cl_startTime cl) / 1000;
             mult = getMultiplierAtTime elapsed;
             s2 = s1\<lparr>game := (game s1)\<lparr>multiplier := mult\<rparr>\<rparr>;
             (t2, s3) = Date_now s2;
             (t3, s4) = Date_now s3;
             s5 = broadcast (Tick (cl_roundId cl) mult (t2 - cl_startTime cl)
                               (cl_crashPoint cl) t3) s4
         in if js_ge mult (cl_crashPoint cl)
            then doCrash (cl_roundId cl) (Math_min mult (cl_crashPoint cl))
                   (clearInterval (cl_timer cl) s5)
            else s5))"

definition startFlying :: "server \<Rightarrow> server" where
  "startFlying s =
     (let rid = roundId (game s);
          cp = crashPoint (game s);
          (t, s1) = Date_now s;
          s2 = s1\<lparr>game := (game s1)\<lparr>status := Flying, startTime := Some t,
                                     multiplier := Some 1, nextEventTime := None\<rparr>\<rparr>;
          s3 = broadcast (Fly rid t cp ALGORITHM) s2;
          timer = timerSeq s3
      in s3\<lparr>intervals := intervals s3 @ [\<lparr>cl_roundId = rid, cl_crashPoint = cp,
                                            cl_startTime = t, cl_timer = timer\<rparr>],
             timerSeq := timer + 1\<rparr>)"

text \<open>The callback of the ten-second interval set at startup.\<close>

definition heartbeat :: "server \<Rightarrow> server" where
  "heartbeat s = broadcast (Heartbeat (toUpperCase (status_str (status (game s))))
                              (nextEventTime (game s))) s"

section \<open>Request handlers\<close>

text \<open>The JSON bodies that the handlers below send, and a response with its status code.\<close>

datatype payload =
    ForceCrashOk jsnum
  | PoolOk "jsnum list"
  | NotOk string
  | ErrorOnly string
  | SignalOk (cur_roundId: uuid) (cur_status: phase) (cur_crashPoint: jsnum)
      (cur_multiplier: jsnum) (upcoming: "(nat \<times> uuid \<times> jsnum) list")

record response =
  code :: nat
  body :: payload

text \<open>\<open>/api/stream\<close>: \<open>clients\<close> is a set, so a handle is added once.\<close>

definition handleAPI_stream :: "nat \<Rightarrow> server \<Rightarrow> server" where
  "handleAPI_stream res s =
     (let s1 = s\<lparr>clients := (if res \<in> set (clients s) then clients s else clients s @ [res])\<rparr>
      in sendSSE res (Heartbeat (toUpperCase (status_str (status (game s1))))
                        (nextEventTime (game s1))) s1)"

text \<open>\<open>/api/admin/force-crash\<close>, on the field \<open>at\<close> of the body.\<close>

definition handleAPI_force_crash :: "jsval \<Rightarrow> server \<Rightarrow> response \<times> server" where
  "handleAPI_force_crash at_field s =
     (let at' = js_or (parseFloat at_field) 1.5
      in if status (game s) = Flying
         then (let s1 = doCrash (roundId (game s)) at' s
               in (\<lparr>code = 200, body = ForceCrashOk at'\<rparr>, s1))
         else (\<lparr>code = 400,
                body = NotOk (''Game is not flying (current: '' @ status_str (status (game s))
                              @ '')'')\<rparr>, s))"

text \<open>\<open>/api/admin/crash-pool\<close>, on the field \<open>pool\<close> of the body.\<close>

fun pushPool :: "jsval list \<Rightarrow> server \<Rightarrow> server" where
  "pushPool [] s = s"
| "pushPool (x # xs) s =
     (let (u, s1) = randomUUID s
      in pushPool xs (s1\<lparr>crashQueue := crashQueue s1
                            @ [\<lparr>entry_id = u, entry_multiplier = parseFloat x\<rparr>]\<rparr>))"

definition handleAPI_crash_pool :: "jsval \<Rightarrow> server \<Rightarrow> response \<times> server" where
  "handleAPI_crash_pool pool s =
     (case pool of
        JArr xs \<Rightarrow>
          if length xs > 0
          then (let s1 = s\<lparr>crashQueue := []\<rparr>;
                    s2 = pushPool xs s1;
                    s3 = fillQueue s2
                in (\<lparr>code = 200, body = PoolOk (map entry_multiplier (crashQueue s3))\<rparr>, s3))
          else (\<lparr>code = 400, body = NotOk ''Provide { pool: [number, ...] }''\<rparr>, s)
      | _ \<Rightarrow> (\<lparr>code = 400, body = NotOk ''Provide { pool: [number, ...] }''\<rparr>, s))"

text \<open>
  \<open>/api/signal\<close>, on the query parameter \<open>key\<close> (\<open>None\<close> when the URL has none).
\<close>

definition upcomingOf :: "entry list \<Rightarrow> (nat \<times> uuid \<times> jsnum) list" where
  "upcomingOf q = map (\<lambda>(i, e). (i + 1, entry_id e, entry_multiplier e)) (enumerate 0 q)"

definition handleAPI_signal :: "string option \<Rightarrow> server \<Rightarrow> response \<times> server" where
  "handleAPI_signal key s =
     (if key \<noteq> Some (SIGNAL_SECRET s)
      then (\<lparr>code = 403, body = ErrorOnly ''Invalid signal key''\<rparr>, s)
      else (let s1 = fillQueue s
            in (\<lparr>code = 200,
                 body = SignalOk (roundId (game s1)) (status (game s1)) (crashPoint (game s1))
                          (multiplier (game s1)) (upcomingOf (crashQueue s1))\<rparr>, s1)))"

section \<open>Replay pool variant\<close>


record replay =
  pool :: "jsnum list"
  queueIdx :: nat




section \<open>Example states\<close>

text \<open>
  A round in flight with one subscriber: round \<open>r1\<close> took off at 1000 ms with crash
  point 1.86, the clock reads 11000 ms, and the tick interval with handle 0 is live.
\<close>

definition ex_server :: server where
  "ex_server = \<lparr>game = \<lparr>roundId = ''r1'', status = Flying, multiplier = Some 1,
                          startTime = Some 1000, crashPoint = Some 1.86, nextEventTime = None\<rparr>,
     crashQueue = [], history = [], clients = [7], writes = [],
     intervals = [\<lparr>cl_roundId = ''r1'', cl_crashPoint = Some 1.86, cl_startTime = 1000, cl_timer = 0\<rparr>],
     timerSeq = 1, timeouts = [],
     randomBytes4 = (\<lambda>n. 0), randomPos = 0, uuidSource = (\<lambda>n. ''u''), uuidPos = 0,
     clock = (\<lambda>n. 11000 + int n), clockPos = 0, writeThrows = (\<lambda>c. False), SIGNAL_SECRET = ''s3cr3t''\<rparr>"

definition ex_closure :: tick_closure where
  "ex_closure = \<lparr>cl_roundId = ''r1'', cl_crashPoint = Some 1.86, cl_startTime = 1000, cl_timer = 0\<rparr>"

section \<open>The crash queue\<close>

lemma pushGenerated_queue:
  "\<exists>e. crashQueue (pushGenerated s) = crashQueue s @ [e]"
  by (simp add: pushGenerated_def generateCrashPoint_def readUInt32BE_def randomUUID_def
      Let_def split_def)

lemma fillQueue_length: "QUEUE_SIZE \<le> length (crashQueue (fillQueue s))"
proof (induction s rule: fillQueue.induct)
  case (1 s)
  show ?case
  proof (cases "length (crashQueue s) < QUEUE_SIZE")
    case True
    with "1" show ?thesis by (subst fillQueue.simps) simp
  next
    case False
    then show ?thesis by (subst fillQueue.simps) simp
  qed
qed

lemma fillQueue_full: "QUEUE_SIZE \<le> length (crashQueue s) \<Longrightarrow> fillQueue s = s"
  by (subst fillQueue.simps) simp

lemma fillQueue_append: "\<exists>ys. crashQueue (fillQueue s) = crashQueue s @ ys"
proof (induction s rule: fillQueue.induct)
  case (1 s)
  show ?case
  proof (cases "length (crashQueue s) < QUEUE_SIZE")
    case True
    from "1" [OF True] obtain ys where ys: "crashQueue (fillQueue (pushGenerated s)) = crashQueue (pushGenerated s) @ ys"
      by blast
    obtain e where "crashQueue (pushGenerated s) = crashQueue s @ [e]"
      using pushGenerated_queue by blast
    with ys True show ?thesis by (subst fillQueue.simps) simp
  next
    case False
    then show ?thesis by (subst fillQueue.simps) simp
  qed
qed

lemma pushGenerated_frame:
  "game (pushGenerated s) = game s" "history (pushGenerated s) = history s"
  "clients (pushGenerated s) = clients s" "writes (pushGenerated s) = writes s"
  "intervals (pushGenerated s) = intervals s" "timeouts (pushGenerated s) = timeouts s"
  "clock (pushGenerated s) = clock s" "clockPos (pushGenerated s) = clockPos s"
  "writeThrows (pushGenerated s) = writeThrows s" "SIGNAL_SECRET (pushGenerated s) = SIGNAL_SECRET s"
  "timerSeq (pushGenerated s) = timerSeq s"
  by (simp_all add: pushGenerated_def generateCrashPoint_def readUInt32BE_def randomUUID_def
      Let_def split_def)

lemma fillQueue_frame:
  "game (fillQueue s) = game s \<and> history (fillQueue s) = history s \<and>
   clients (fillQueue s) = clients s \<and> writes (fillQueue s) = writes s \<and>
   intervals (fillQueue s) = intervals s \<and> timeouts (fillQueue s) = timeouts s \<and>
   clock (fillQueue s) = clock s \<and> clockPos (fillQueue s) = clockPos s \<and>
   writeThrows (fillQueue s) = writeThrows s \<and> SIGNAL_SECRET (fillQueue s) = SIGNAL_SECRET s \<and>
   timerSeq (fillQueue s) = timerSeq s"
proof (induction s rule: fillQueue.induct)
  case (1 s)
  show ?case
  proof (cases "length (crashQueue s) < QUEUE_SIZE")
    case True
    with "1" show ?thesis by (subst (1 2 3 4 5 6 7 8 9 10 11) fillQueue.simps) (simp add: pushGenerated_frame)
  next
    case False
    then show ?thesis by (subst (1 2 3 4 5 6 7 8 9 10 11) fillQueue.simps) simp
  qed
qed

lemma peekEntries_frame:
  "crashQueue (snd (peekEntries es s)) = crashQueue s \<and> game (snd (peekEntries es s)) = game s
   \<and> history (snd (peekEntries es s)) = history s \<and> writes (snd (peekEntries es s)) = writes s
   \<and> clients (snd (peekEntries es s)) = clients s \<and> writeThrows (snd (peekEntries es s)) = writeThrows s"
  by (induction es arbitrary: s) (simp_all add: Date_now_def split_def Let_def)

lemma peekEntries_items:
  "map (\<lambda>p. (peek_id p, peek_multiplier p)) (fst (peekEntries es s))
     = map (\<lambda>e. (entry_id e, entry_multiplier e)) es"
  by (induction es arbitrary: s) (simp_all add: Date_now_def split_def Let_def)


lemma nextCrashPoint_length: "QUEUE_SIZE \<le> length (crashQueue (snd (nextCrashPoint s)))"
  by (simp add: nextCrashPoint_def Let_def split_def fillQueue_length)


lemma pushPool_mults:
  "map entry_multiplier (crashQueue (pushPool xs s)) = map entry_multiplier (crashQueue s) @ map parseFloat xs"
  by (induction xs arbitrary: s) (simp_all add: randomUUID_def Let_def split_def)

lemma crash_pool_rejected:
  "\<forall>x xs. p \<noteq> JArr (x # xs) \<Longrightarrow>
   handleAPI_crash_pool p s = (\<lparr>code = 400, body = NotOk ''Provide { pool: [number, ...] }''\<rparr>, s)"
  by (cases p) (auto simp: handleAPI_crash_pool_def neq_Nil_conv)

lemma nextCrashPoint_Cons:
  "crashQueue s = e # q \<Longrightarrow>
   nextCrashPoint s = (Inr (entry_multiplier e), fillQueue (s\<lparr>crashQueue := q\<rparr>))"
  by (simp add: nextCrashPoint_def Let_def)

lemma mults_fillQueue:
  "\<exists>ys. map entry_multiplier (crashQueue (fillQueue s)) = map entry_multiplier (crashQueue s) @ ys"
  using fillQueue_append [of s] by (metis map_append)

lemma nextCrashPoint_result:
  "crashQueue s = e # q \<Longrightarrow> fst (nextCrashPoint s) = Inr (entry_multiplier e)"
  by (simp add: nextCrashPoint_Cons)

lemma peekQueue_full:
  "QUEUE_SIZE \<le> length (crashQueue s) \<Longrightarrow>
   crashQueue (snd (peekQueue n s)) = crashQueue s \<and> game (snd (peekQueue n s)) = game s"
  by (simp add: peekQueue_def Let_def fillQueue_full peekEntries_frame)

lemma upcomingOf_positions: "map fst (upcomingOf q) = [1..<Suc (length q)]"
proof -
  have "map fst (upcomingOf q) = map (Suc \<circ> fst) (enumerate 0 q)"
    by (simp add: upcomingOf_def split_def comp_def)
  also have "\<dots> = map Suc (map fst (enumerate 0 q))"
    by (simp only: map_map)
  also have "\<dots> = [1..<Suc (length q)]"
    by (simp add: map_Suc_upt)
  finally show ?thesis .
qed

lemma upcomingOf_items:
  "map snd (upcomingOf q) = map (\<lambda>e. (entry_id e, entry_multiplier e)) q"
proof -
  have "map snd (upcomingOf q) = map ((\<lambda>e. (entry_id e, entry_multiplier e)) \<circ> snd) (enumerate 0 q)"
    by (simp add: upcomingOf_def split_def comp_def)
  also have "\<dots> = map (\<lambda>e. (entry_id e, entry_multiplier e)) (map snd (enumerate 0 q))"
    by (simp only: map_map)
  also have "\<dots> = map (\<lambda>e. (entry_id e, entry_multiplier e)) q"
    by simp
  finally show ?thesis .
qed

section \<open>Broadcast and crash\<close>

lemma sendSSE_frame:
  "game (sendSSE c ev s) = game s" "crashQueue (sendSSE c ev s) = crashQueue s"
  "history (sendSSE c ev s) = history s" "intervals (sendSSE c ev s) = intervals s"
  "timeouts (sendSSE c ev s) = timeouts s" "timerSeq (sendSSE c ev s) = timerSeq s"
  "clock (sendSSE c ev s) = clock s" "clockPos (sendSSE c ev s) = clockPos s"
  "uuidSource (sendSSE c ev s) = uuidSource s" "uuidPos (sendSSE c ev s) = uuidPos s"
  "randomBytes4 (sendSSE c ev s) = randomBytes4 s" "randomPos (sendSSE c ev s) = randomPos s"
  "writeThrows (sendSSE c ev s) = writeThrows s" "SIGNAL_SECRET (sendSSE c ev s) = SIGNAL_SECRET s"
  by (simp_all add: sendSSE_def Let_def)

lemma sendSSE_writes: "writes (sendSSE c ev s) = writes s @ [(c, ev)]"
  by (simp add: sendSSE_def Let_def)

lemma sendSSE_clients:
  "clients (sendSSE c ev s) = (if writeThrows s c then removeAll c (clients s) else clients s)"
  by (simp add: sendSSE_def Let_def)

lemma fold_sendSSE_frame:
  "game (fold (\<lambda>c. sendSSE c ev) cs s) = game s \<and>
   crashQueue (fold (\<lambda>c. sendSSE c ev) cs s) = crashQueue s \<and>
   history (fold (\<lambda>c. sendSSE c ev) cs s) = history s \<and>
   intervals (fold (\<lambda>c. sendSSE c ev) cs s) = intervals s \<and>
   timeouts (fold (\<lambda>c. sendSSE c ev) cs s) = timeouts s \<and>
   timerSeq (fold (\<lambda>c. sendSSE c ev) cs s) = timerSeq s \<and>
   clock (fold (\<lambda>c. sendSSE c ev) cs s) = clock s \<and>
   clockPos (fold (\<lambda>c. sendSSE c ev) cs s) = clockPos s \<and>
   uuidSource (fold (\<lambda>c. sendSSE c ev) cs s) = uuidSource s \<and>
   uuidPos (fold (\<lambda>c. sendSSE c ev) cs s) = uuidPos s \<and>
   writeThrows (fold (\<lambda>c. sendSSE c ev) cs s) = writeThrows s \<and>
   SIGNAL_SECRET (fold (\<lambda>c. sendSSE c ev) cs s) = SIGNAL_SECRET s"
  by (induction cs arbitrary: s) (simp_all add: sendSSE_frame)

lemma fold_sendSSE_writes:
  "writes (fold (\<lambda>c. sendSSE c ev) cs s) = writes s @ map (\<lambda>c. (c, ev)) cs"
  by (induction cs arbitrary: s) (simp_all add: sendSSE_writes)

lemma fold_sendSSE_clients:
  "clients (fold (\<lambda>c. sendSSE c ev) cs s)
     = filter (\<lambda>c. \<not> (c \<in> set cs \<and> writeThrows s c)) (clients s)"
proof (induction cs arbitrary: s)
  case Nil
  then show ?case by simp
next
  case (Cons a cs)
  show ?case
    by (simp add: Cons.IH sendSSE_frame sendSSE_clients removeAll_filter_not_eq filter_id_conv)
       (auto intro: filter_cong)
qed

lemma broadcast_frame:
  "game (broadcast ev s) = game s" "crashQueue (broadcast ev s) = crashQueue s"
  "history (broadcast ev s) = history s" "intervals (broadcast ev s) = intervals s"
  "timeouts (broadcast ev s) = timeouts s" "timerSeq (broadcast ev s) = timerSeq s"
  "clock (broadcast ev s) = clock s" "clockPos (broadcast ev s) = clockPos s"
  "uuidSource (broadcast ev s) = uuidSource s" "uuidPos (broadcast ev s) = uuidPos s"
  "writeThrows (broadcast ev s) = writeThrows s" "SIGNAL_SECRET (broadcast ev s) = SIGNAL_SECRET s"
  by (simp_all add: broadcast_def fold_sendSSE_frame)

lemma broadcast_writes: "writes (broadcast ev s) = writes s @ map (\<lambda>c. (c, ev)) (clients s)"
  by (simp add: broadcast_def fold_sendSSE_writes)

lemma broadcast_clients:
  "clients (broadcast ev s) = filter (\<lambda>c. \<not> writeThrows s c) (clients s)"
  by (simp add: broadcast_def fold_sendSSE_clients cong: filter_cong)

lemma doCrash_game:
  "game (doCrash rid m s) = (game s)\<lparr>status := Crashed, multiplier := m,
       nextEventTime := Some (clock s (clockPos s) + CRASH_PAUSE)\<rparr>"
  by (simp add: doCrash_def Date_now_def randomUUID_def setTimeout_def Let_def broadcast_frame)

lemma doCrash_writes:
  "writes (doCrash rid m s)
     = writes s @ map (\<lambda>c. (c, Crash rid m (clock s (clockPos s) + CRASH_PAUSE))) (clients s)"
  by (simp add: doCrash_def Date_now_def randomUUID_def setTimeout_def Let_def broadcast_writes)

lemma doCrash_history:
  "history (doCrash rid m s)
     = \<lparr>hist_id = rid, hist_multiplier = m, hist_timestamp = clock s (clockPos s + 1),
        hist_server_seed = uuidSource s (uuidPos s)\<rparr>
       # (if 20 \<le> length (history s) then butlast (history s) else history s)"
  by (auto simp add: doCrash_def Date_now_def randomUUID_def setTimeout_def Let_def broadcast_frame)

lemma toUpperCase_status:
  "toUpperCase (status_str p)
     = (case p of Waiting \<Rightarrow> ''WAITING'' | Flying \<Rightarrow> ''FLYING'' | Crashed \<Rightarrow> ''CRASHED'')"
proof (cases p)
  case Waiting
  have "toUpperCase (status_str Waiting) = ''WAITING''" by code_simp
  with Waiting show ?thesis by simp
next
  case Flying
  have "toUpperCase (status_str Flying) = ''FLYING''" by code_simp
  with Flying show ?thesis by simp
next
  case Crashed
  have "toUpperCase (status_str Crashed) = ''CRASHED''" by code_simp
  with Crashed show ?thesis by simp
qed

lemma startFlying_queue: "crashQueue (startFlying s) = crashQueue s"
  by (simp add: startFlying_def Date_now_def Let_def broadcast_frame)

lemma startWaiting_draw:
  assumes "fst (nextCrashPoint s) = Inr cp"
  shows "fst (startWaiting s) = Inr ()
       \<and> crashPoint (game (snd (startWaiting s))) = cp
       \<and> status (game (snd (startWaiting s))) = Waiting
       \<and> multiplier (game (snd (startWaiting s))) = Some 1
       \<and> crashQueue (snd (startWaiting s)) = crashQueue (snd (nextCrashPoint s))"
proof -
  obtain s1 where n: "nextCrashPoint s = (Inr cp, s1)"
    using assms by (cases "nextCrashPoint s") simp
  have full: "QUEUE_SIZE \<le> length (crashQueue s1)"
    using nextCrashPoint_length [of s] n by simp
  define s4 where "s4 = (snd (Date_now (snd (randomUUID s1))))
      \<lparr>game := \<lparr>roundId = fst (randomUUID s1), status = Waiting, multiplier = Some 1,
                 startTime = None, crashPoint = cp,
                 nextEventTime = Some (fst (Date_now (snd (randomUUID s1))) + WAIT_MS)\<rparr>\<rparr>"
  have q4: "crashQueue s4 = crashQueue s1"
    by (simp add: s4_def Date_now_def randomUUID_def)
  have g4: "crashPoint (game s4) = cp" "status (game s4) = Waiting" "multiplier (game s4) = Some 1"
    by (simp_all add: s4_def)
  have p: "crashQueue (snd (peekQueue 5 s4)) = crashQueue s1" "game (snd (peekQueue 5 s4)) = game s4"
    using peekQueue_full [of s4 5] full q4 by simp_all
  show ?thesis
    using p g4
    by (simp add: startWaiting_def n Let_def split_def s4_def [symmetric] setTimeout_def
        broadcast_frame)
qed

lemma tick_live:
  assumes "status (game s) = Flying" "roundId (game s) = cl_roundId cl"
  shows "tick cl s =
     (let mult = getMultiplierAtTime (real_of_int (clock s (clockPos s) - cl_startTime cl) / 1000);
          s5 = broadcast (Tick (cl_roundId cl) mult (clock s (clockPos s + 1) - cl_startTime cl)
                            (cl_crashPoint cl) (clock s (clockPos s + 2)))
                 (s\<lparr>game := (game s)\<lparr>multiplier := mult\<rparr>, clockPos := clockPos s + 3\<rparr>)
      in if js_ge mult (cl_crashPoint cl)
         then doCrash (cl_roundId cl) (Math_min mult (cl_crashPoint cl))
                (clearInterval (cl_timer cl) s5)
         else s5)"
  using assms by (simp add: tick_def Date_now_def Let_def eval_nat_numeral)

section \<open>Generated values\<close>






section \<open>The curve at given times\<close>

lemma powr_22_pow5: "0 \<le> x \<Longrightarrow> (x powr 2.2) ^ 5 = x ^ 11" for x :: real
proof -
  assume x: "0 \<le> x"
  have "(x powr 2.2) ^ 5 = (x powr 2.2) powr 5"
    by simp
  also have "\<dots> = x powr 11"
    by (simp add: powr_powr)
  also have "\<dots> = x ^ 11"
    using x by simp
  finally show ?thesis .
qed

lemma powr_22_lower:
  fixes x lo :: real
  assumes "0 \<le> x" "lo ^ 5 \<le> x ^ 11"
  shows "lo \<le> x powr 2.2"
proof (rule ccontr)
  assume "\<not> lo \<le> x powr 2.2"
  then have "x powr 2.2 < lo" by simp
  moreover have "0 \<le> x powr 2.2" by simp
  ultimately have "(x powr 2.2) ^ 5 < lo ^ 5"
    by (intro power_strict_mono) simp_all
  then have "x ^ 11 < lo ^ 5"
    by (simp only: powr_22_pow5 [OF assms(1)])
  with assms(2) show False
    by linarith
qed

lemma powr_22_upper:
  fixes x hi :: real
  assumes "0 \<le> x" "0 \<le> hi" "x ^ 11 < hi ^ 5"
  shows "x powr 2.2 < hi"
proof (rule ccontr)
  assume "\<not> x powr 2.2 < hi"
  then have "hi \<le> x powr 2.2" by simp
  with assms(2) have "hi ^ 5 \<le> (x powr 2.2) ^ 5"
    by (intro power_mono)
  then have "hi ^ 5 \<le> x ^ 11"
    by (simp only: powr_22_pow5 [OF assms(1)])
  with assms(3) show False
    by linarith
qed

lemma getMultiplierAtTime_between:
  fixes t lo hi :: real
  assumes t: "0 \<le> t" and hi: "0 \<le> hi"
    and lo5: "lo ^ 5 \<le> t ^ 11" and hi5: "t ^ 11 < hi ^ 5"
    and k1: "real_of_int k \<le> 100 * (1 + 0.0055 * lo) + 1 / 2"
    and k2: "100 * (1 + 0.0055 * hi) + 1 / 2 \<le> real_of_int k + 1"
  shows "getMultiplierAtTime t = Some (real_of_int k / 100)"
proof -
  have "lo \<le> t powr 2.2"
    using t lo5 by (rule powr_22_lower)
  moreover have "t powr 2.2 < hi"
    using t hi hi5 by (rule powr_22_upper)
  ultimately
  have "real_of_int k \<le> 100 * (1 + 0.0055 * t powr 2.2) + 1 / 2"
    and "100 * (1 + 0.0055 * t powr 2.2) + 1 / 2 < real_of_int k + 1"
    using k1 k2 by auto
  then have "\<lfloor>100 * (1 + 0.0055 * t powr 2.2) + 1 / 2\<rfloor> = k"
    by (simp add: floor_eq_iff)
  with t show ?thesis
    by (simp add: getMultiplierAtTime_def Math_round_def)
qed

section \<open>Claims\<close>

text \<open>
  Claim C1, as the code has it. A tick that fires in flight, for the round it was registered
  for, with a numeric crash point and a clock not before take-off, sends every subscriber
  a \<open>tick\<close> event that carries the curve value \<open>m\<close> itself, not clamped. If
  \<open>m\<close> is below the crash point the round stays in flight and \<open>m\<close> is stored. If
  \<open>m\<close> has reached the crash point the same callback ends the round: the stored
  multiplier, the \<open>crash\<close> event and the new history entry carry
  \<open>min(m, crashPoint) = crashPoint\<close>. Either way the multiplier stored when the callback
  returns is at most the crash point.
\<close>

theorem tick_stores_at_most_target:
  assumes "status (game s) = Flying" and "roundId (game s) = cl_roundId cl"
    and "cl_crashPoint cl = crashPoint (game s)" and "crashPoint (game s) = Some c"
    and "cl_startTime cl \<le> clock s (clockPos s)"
  shows "\<exists>m. getMultiplierAtTime (real_of_int (clock s (clockPos s) - cl_startTime cl) / 1000)
             = Some m
     \<and> take (length (clients s)) (drop (length (writes s)) (writes (tick cl s)))
         = map (\<lambda>k. (k, Tick (cl_roundId cl) (Some m) (clock s (clockPos s + 1) - cl_startTime cl)
                         (Some c) (clock s (clockPos s + 2)))) (clients s)
     \<and> (m < c \<longrightarrow> status (game (tick cl s)) = Flying \<and> multiplier (game (tick cl s)) = Some m
           \<and> length (writes (tick cl s)) = length (writes s) + length (clients s))
     \<and> (c \<le> m \<longrightarrow> status (game (tick cl s)) = Crashed \<and> multiplier (game (tick cl s)) = Some c
           \<and> drop (length (writes s) + length (clients s)) (writes (tick cl s))
               = map (\<lambda>k. (k, Crash (cl_roundId cl) (Some c)
                                (clock s (clockPos s + 3) + CRASH_PAUSE)))
                   (filter (\<lambda>k. \<not> writeThrows s k) (clients s))
           \<and> hist_multiplier (hd (history (tick cl s))) = Some c)
     \<and> (\<exists>x. multiplier (game (tick cl s)) = Some x \<and> x \<le> c)"
proof -
  define e where "e = real_of_int (clock s (clockPos s) - cl_startTime cl) / 1000"
  have "0 \<le> e"
    using assms(5) by (simp add: e_def)
  then have "getMultiplierAtTime e
      = Some (real_of_int (Math_round (100 * (1 + 0.0055 * e powr 2.2))) / 100)"
    by (simp add: getMultiplierAtTime_def)
  then obtain m where m: "getMultiplierAtTime e = Some m"
    by blast
  have cp: "cl_crashPoint cl = Some c"
    using assms(3,4) by simp
  note live = tick_live [OF assms(1,2), folded e_def, unfolded m cp Let_def]
  have ticks: "take (length (clients s)) (drop (length (writes s)) (writes (tick cl s)))
         = map (\<lambda>k. (k, Tick (cl_roundId cl) (Some m) (clock s (clockPos s + 1) - cl_startTime cl)
                         (Some c) (clock s (clockPos s + 2)))) (clients s)"
    by (simp add: live js_ge_def doCrash_writes broadcast_writes clearInterval_def
        broadcast_frame)
  have lt: "status (game (tick cl s)) = Flying \<and> multiplier (game (tick cl s)) = Some m
           \<and> length (writes (tick cl s)) = length (writes s) + length (clients s)" if "m < c"
    using that assms(1) by (simp add: live js_ge_def broadcast_writes broadcast_frame)
  have ge: "status (game (tick cl s)) = Crashed \<and> multiplier (game (tick cl s)) = Some c
           \<and> drop (length (writes s) + length (clients s)) (writes (tick cl s))
               = map (\<lambda>k. (k, Crash (cl_roundId cl) (Some c)
                                (clock s (clockPos s + 3) + CRASH_PAUSE)))
                   (filter (\<lambda>k. \<not> writeThrows s k) (clients s))
           \<and> hist_multiplier (hd (history (tick cl s))) = Some c" if "c \<le> m"
    using that
    by (simp add: live js_ge_def Math_min_def doCrash_game doCrash_writes doCrash_history
        broadcast_writes broadcast_frame broadcast_clients clearInterval_def)
  have "\<exists>x. multiplier (game (tick cl s)) = Some x \<and> x \<le> c"
    using lt ge by (cases "m < c") auto
  with ticks lt ge m show ?thesis
    unfolding e_def by blast
qed

text \<open>
  Claim C1 at the example state, 10 s after take-off, where the curve has passed the crash
  point, and at the same state 5 s after take-off, where the round stays in flight.
\<close>

theorem tick_stores_at_most_target_witness:
  "status (game ex_server) = Flying \<and> roundId (game ex_server) = cl_roundId ex_closure
   \<and> cl_crashPoint ex_closure = crashPoint (game ex_server)
   \<and> crashPoint (game ex_server) = Some 1.86
   \<and> cl_startTime ex_closure \<le> clock ex_server (clockPos ex_server)
   \<and> status (game (tick ex_closure ex_server)) = Crashed
   \<and> multiplier (game (tick ex_closure ex_server)) = Some 1.86
   \<and> status (game (tick ex_closure (ex_server\<lparr>clock := \<lambda>n. 6000 + int n\<rparr>))) = Flying
   \<and> multiplier (game (tick ex_closure (ex_server\<lparr>clock := \<lambda>n. 6000 + int n\<rparr>))) = Some 1.19"
proof -
  have h1: "status (game ex_server) = Flying"
    and h2: "roundId (game ex_server) = cl_roundId ex_closure"
    and h3: "cl_crashPoint ex_closure = crashPoint (game ex_server)"
    and h4: "crashPoint (game ex_server) = Some 1.86"
    and h5: "cl_startTime ex_closure \<le> clock ex_server (clockPos ex_server)"
    by (simp_all add: ex_server_def ex_closure_def)
  have e10: "real_of_int (clock ex_server (clockPos ex_server) - cl_startTime ex_closure) / 1000 = 10"
    by (simp add: ex_server_def ex_closure_def)
  have m10: "getMultiplierAtTime 10 = Some 1.87"
    using getMultiplierAtTime_between [of 10 "158.49" "158.48" 187] by (simp add: power_divide)
  from tick_stores_at_most_target [OF h1 h2 h3 h4 h5]
  have late: "status (game (tick ex_closure ex_server)) = Crashed
     \<and> multiplier (game (tick ex_closure ex_server)) = Some 1.86"
    unfolding e10 m10 by auto
  define s5 where "s5 = ex_server\<lparr>clock := \<lambda>n. 6000 + int n\<rparr>"
  have g1: "status (game s5) = Flying"
    and g2: "roundId (game s5) = cl_roundId ex_closure"
    and g3: "cl_crashPoint ex_closure = crashPoint (game s5)"
    and g4: "crashPoint (game s5) = Some 1.86"
    and g5: "cl_startTime ex_closure \<le> clock s5 (clockPos s5)"
    by (simp_all add: s5_def ex_server_def ex_closure_def)
  have e5: "real_of_int (clock s5 (clockPos s5) - cl_startTime ex_closure) / 1000 = 5"
    by (simp add: s5_def ex_server_def ex_closure_def)
  have m5: "getMultiplierAtTime 5 = Some 1.19"
    using getMultiplierAtTime_between [of 5 35 34 119] by simp
  from tick_stores_at_most_target [OF g1 g2 g3 g4 g5]
  have early: "status (game (tick ex_closure s5)) = Flying
     \<and> multiplier (game (tick ex_closure s5)) = Some 1.19"
    unfolding e5 m5 by auto
  from h1 h2 h3 h4 h5 late early show ?thesis
    unfolding s5_def by blast
qed

text \<open>
  Claim C1 as stated fails for the emitted \<open>tick\<close> event. With crash point 1.86 the
  round is still in flight 9.9 s after take-off (the curve gives 1.85); at 10 s the curve
  gives 1.87, and the \<open>tick\<close> event written while the phase is still \<open>flying\<close>
  carries 1.87, above the crash point. Only the \<open>crash\<close> event that follows is clamped.
\<close>

theorem tick_event_above_target:
  "status (game ex_server) = Flying \<and> roundId (game ex_server) = cl_roundId ex_closure
   \<and> crashPoint (game ex_server) = Some 1.86
   \<and> writes (tick ex_closure ex_server)
       = [(7, Tick ''r1'' (Some 1.87) 10001 (Some 1.86) 11002),
          (7, Crash ''r1'' (Some 1.86) 16003)]
   \<and> \<not> (1.87 \<le> (1.86::real))
   \<and> getMultiplierAtTime 9.9 = Some 1.85"
proof -
  have m99: "getMultiplierAtTime 9.9 = Some 1.85"
    using getMultiplierAtTime_between [of "9.9" "155.4" 154 185] by (simp add: power_divide)
  have m: "getMultiplierAtTime 10 = Some 1.87"
    using getMultiplierAtTime_between [of 10 "158.49" "158.48" 187] by (simp add: power_divide)
  have live: "status (game ex_server) = Flying" "roundId (game ex_server) = cl_roundId ex_closure"
    by (simp_all add: ex_server_def ex_closure_def)
  have e: "real_of_int (clock ex_server (clockPos ex_server) - cl_startTime ex_closure) / 1000 = 10"
    by (simp add: ex_server_def ex_closure_def)
  have "writes (tick ex_closure ex_server)
       = [(7, Tick ''r1'' (Some 1.87) 10001 (Some 1.86) 11002),
          (7, Crash ''r1'' (Some 1.86) 16003)]"
    unfolding tick_live [OF live] e m Let_def
    by (simp add: js_ge_def Math_min_def doCrash_writes broadcast_writes broadcast_frame
        broadcast_clients clearInterval_def ex_server_def ex_closure_def CRASH_PAUSE_def)
  with live m99 show ?thesis
    by (simp add: ex_server_def)
qed

text \<open>
  Claim C2. For every elapsed time \<open>t \<ge> 0\<close>, \<open>getMultiplierAtTime\<close> returns the
  number \<open>round(100 (1 + 0.0055 t^2.2)) / 100\<close>; it takes nothing but \<open>t\<close>, so equal
  arguments give equal results. At \<open>t = 5\<close> the value is 1.19.
\<close>

theorem curve_matches_formula:
  "(0 \<le> t \<longrightarrow> getMultiplierAtTime t = Some (curve_spec t))
   \<and> getMultiplierAtTime 5 = Some (curve_spec 5) \<and> curve_spec 5 = 1.19"
proof -
  have a: "getMultiplierAtTime t = Some (curve_spec t)" if "0 \<le> t" for t
    using that by (simp add: getMultiplierAtTime_def curve_spec_def Math_round_def round_def)
  have "getMultiplierAtTime 5 = Some 1.19"
    using getMultiplierAtTime_between [of 5 35 34 119] by simp
  with a [of 5] a [of t] show ?thesis by simp
qed

text \<open>Claim C2 at \<open>t = 0\<close>, where the curve starts at 1.\<close>

theorem curve_matches_formula_witness:
  "(0::real) \<le> 0 \<and> getMultiplierAtTime 0 = Some (curve_spec 0) \<and> curve_spec 0 = 1"
  using curve_matches_formula [of 0] by (simp add: curve_spec_def)

text \<open>
  Claim C3, as the code has it. A forced crash with a nonzero number \<open>x\<close> while the round
  is in flight answers 200, sends every subscriber a \<open>crash\<close> event with multiplier
  \<open>x\<close>, puts a history entry with the round's id and multiplier \<open>x\<close> in front of
  the history (dropping the oldest entry beyond twenty), and stores \<open>x\<close> with phase
  \<open>crashed\<close>. A forced crash in any other phase, whatever its value, answers 400 with
  an error and leaves the whole state as it was.
\<close>

theorem force_crash_at_value:
  "(status (game s) = Flying \<and> x \<noteq> 0 \<longrightarrow>
      fst (handleAPI_force_crash (JNum x) s) = \<lparr>code = 200, body = ForceCrashOk (Some x)\<rparr>
    \<and> writes (snd (handleAPI_force_crash (JNum x) s))
        = writes s @ map (\<lambda>c. (c, Crash (roundId (game s)) (Some x)
                                     (clock s (clockPos s) + CRASH_PAUSE))) (clients s)
    \<and> hist_id (hd (history (snd (handleAPI_force_crash (JNum x) s)))) = roundId (game s)
    \<and> hist_multiplier (hd (history (snd (handleAPI_force_crash (JNum x) s)))) = Some x
    \<and> tl (history (snd (handleAPI_force_crash (JNum x) s)))
        = (if 20 \<le> length (history s) then butlast (history s) else history s)
    \<and> status (game (snd (handleAPI_force_crash (JNum x) s))) = Crashed
    \<and> multiplier (game (snd (handleAPI_force_crash (JNum x) s))) = Some x)
   \<and> (status (game s) \<noteq> Flying \<longrightarrow>
        code (fst (handleAPI_force_crash v s)) = 400
      \<and> body (fst (handleAPI_force_crash v s))
          = NotOk (''Game is not flying (current: '' @ status_str (status (game s)) @ '')'')
      \<and> snd (handleAPI_force_crash v s) = s)"
  by (simp add: handleAPI_force_crash_def js_or_def Let_def doCrash_game doCrash_writes
      doCrash_history)

text \<open>Claim C3 at the example state, in flight and again while waiting.\<close>

theorem force_crash_at_value_witness:
  "status (game ex_server) = Flying \<and> (2.5::real) \<noteq> 0
   \<and> writes (snd (handleAPI_force_crash (JNum 2.5) ex_server)) = [(7, Crash ''r1'' (Some 2.5) 16000)]
   \<and> hist_multiplier (hd (history (snd (handleAPI_force_crash (JNum 2.5) ex_server)))) = Some 2.5
   \<and> status (game (ex_server\<lparr>game := (game ex_server)\<lparr>status := Waiting\<rparr>\<rparr>)) \<noteq> Flying
   \<and> snd (handleAPI_force_crash (JNum 2.5) (ex_server\<lparr>game := (game ex_server)\<lparr>status := Waiting\<rparr>\<rparr>))
       = ex_server\<lparr>game := (game ex_server)\<lparr>status := Waiting\<rparr>\<rparr>"
  using force_crash_at_value [of ex_server "2.5" "JNum 2.5"]
    force_crash_at_value [of "ex_server\<lparr>game := (game ex_server)\<lparr>status := Waiting\<rparr>\<rparr>" "2.5" "JNum 2.5"]
  by (simp add: ex_server_def CRASH_PAUSE_def)

text \<open>
  Claim C3 as stated fails for the value 0: \<open>parseFloat(body.at) || 1.5\<close> takes zero as
  falsy, so the round crashes at 1.5 and the event and the history entry carry 1.5.
\<close>

theorem force_crash_zero_uses_default:
  "status (game ex_server) = Flying
   \<and> fst (handleAPI_force_crash (JNum 0) ex_server) = \<lparr>code = 200, body = ForceCrashOk (Some 1.5)\<rparr>
   \<and> writes (snd (handleAPI_force_crash (JNum 0) ex_server)) = [(7, Crash ''r1'' (Some 1.5) 16000)]
   \<and> hist_multiplier (hd (history (snd (handleAPI_force_crash (JNum 0) ex_server)))) = Some 1.5
   \<and> hist_multiplier (hd (history (snd (handleAPI_force_crash (JNum 0) ex_server)))) \<noteq> Some 0"
  by (simp add: handleAPI_force_crash_def js_or_def Let_def doCrash_writes doCrash_history
      ex_server_def CRASH_PAUSE_def)



text \<open>
  Claim C5. After the injection of \<open>[2.0, 3.0]\<close> the next two calls of
  \<open>nextCrashPoint\<close> return 2.0 and then 3.0, whatever the refill appends. The round that
  \<open>startWaiting\<close> opens next has crash point 2.0, and the round opened after it, from any
  state that has left the queue alone in between, has crash point 3.0.
\<close>

theorem injected_values_play_next:
  "let s1 = snd (handleAPI_crash_pool (JArr [JNum 2.0, JNum 3.0]) s);
       (r1, s2) = nextCrashPoint s1;
       (r2, s3) = nextCrashPoint s2;
       w1 = snd (startWaiting s1)
   in r1 = Inr (Some 2.0) \<and> r2 = Inr (Some 3.0)
      \<and> crashPoint (game w1) = Some 2.0
      \<and> (\<forall>s'. crashQueue s' = crashQueue w1 \<longrightarrow>
                crashPoint (game (snd (startWaiting s'))) = Some 3.0)"
proof -
  define s0 where "s0 = pushPool [JNum 2.0, JNum 3.0] (s\<lparr>crashQueue := []\<rparr>)"
  define s1 where "s1 = snd (handleAPI_crash_pool (JArr [JNum 2.0, JNum 3.0]) s)"
  have s1: "s1 = fillQueue s0"
    by (simp add: s1_def s0_def handleAPI_crash_pool_def Let_def del: pushPool.simps)
  have m0: "map entry_multiplier (crashQueue s0) = [Some 2.0, Some 3.0]"
    unfolding s0_def pushPool_mults by simp
  obtain ys where q1: "map entry_multiplier (crashQueue s1) = [Some 2.0, Some 3.0] @ ys"
    using mults_fillQueue [of s0] unfolding s1 m0 by blast
  then obtain e1 e2 q where q: "crashQueue s1 = e1 # e2 # q" "entry_multiplier e1 = Some 2.0"
      "entry_multiplier e2 = Some 3.0"
    by (auto simp: map_eq_Cons_conv)
  define s2 where "s2 = fillQueue (s1\<lparr>crashQueue := e2 # q\<rparr>)"
  have n1: "nextCrashPoint s1 = (Inr (Some 2.0), s2)"
    using q by (simp add: nextCrashPoint_Cons s2_def)
  obtain zs where q2: "crashQueue s2 = e2 # (q @ zs)"
    using fillQueue_append [of "s1\<lparr>crashQueue := e2 # q\<rparr>"] by (auto simp: s2_def)
  then have n2: "fst (nextCrashPoint s2) = Inr (Some 3.0)"
    using q by (simp add: nextCrashPoint_result)
  have w1: "crashPoint (game (snd (startWaiting s1))) = Some 2.0"
    "crashQueue (snd (startWaiting s1)) = crashQueue s2"
    using startWaiting_draw [of s1 "Some 2.0"] n1 by simp_all
  have w2: "crashPoint (game (snd (startWaiting s'))) = Some 3.0"
    if "crashQueue s' = crashQueue (snd (startWaiting s1))" for s'
  proof -
    have "fst (nextCrashPoint s') = Inr (Some 3.0)"
      using that w1(2) q2 q(3) by (simp add: nextCrashPoint_result)
    then show ?thesis
      using startWaiting_draw [of s' "Some 3.0"] by simp
  qed
  show ?thesis
    using n1 n2 w1 w2 unfolding s1_def by (simp add: Let_def split_def)
qed

text \<open>
  Claim C5 at the example state, the second round opened after the first one has taken
  off: \<open>startFlying\<close> leaves the queue alone.
\<close>

theorem injected_values_play_next_witness:
  "crashQueue (startFlying (snd (startWaiting (snd (handleAPI_crash_pool
       (JArr [JNum 2.0, JNum 3.0]) ex_server)))))
     = crashQueue (snd (startWaiting (snd (handleAPI_crash_pool
         (JArr [JNum 2.0, JNum 3.0]) ex_server))))
   \<and> crashPoint (game (snd (startWaiting (startFlying (snd (startWaiting
         (snd (handleAPI_crash_pool (JArr [JNum 2.0, JNum 3.0]) ex_server)))))))) = Some 3.0"
  using injected_values_play_next [of ex_server, unfolded Let_def split_def] startFlying_queue
  by blast



text \<open>
  Claim C7, as the code has it. An injection whose pool is not a non-empty array answers
  400 with an error and leaves the whole state as it was. A forced crash whose value is
  not numeric is not rejected for that: the value defaults to 1.5, so in flight the round
  crashes at 1.5, and in any other phase the call is rejected for its phase and leaves the
  state as it was.
\<close>

theorem invalid_admin_input:
  "((\<forall>x xs. p \<noteq> JArr (x # xs)) \<longrightarrow>
      handleAPI_crash_pool p s
        = (\<lparr>code = 400, body = NotOk ''Provide { pool: [number, ...] }''\<rparr>, s))
   \<and> (parseFloat v = None \<longrightarrow>
        handleAPI_force_crash v s
          = (if status (game s) = Flying
             then (\<lparr>code = 200, body = ForceCrashOk (Some 1.5)\<rparr>,
                   doCrash (roundId (game s)) (Some 1.5) s)
             else (\<lparr>code = 400,
                    body = NotOk (''Game is not flying (current: ''
                                  @ status_str (status (game s)) @ '')'')\<rparr>, s)))"
  using crash_pool_rejected [of p s]
  by (simp add: handleAPI_force_crash_def js_or_def Let_def)

text \<open>Claim C7 at the example state: an empty pool, and \<open>null\<close> as the crash value.\<close>

theorem invalid_admin_input_witness:
  "(\<forall>x xs. JArr [] \<noteq> JArr (x # xs)) \<and> parseFloat JNull = None
   \<and> snd (handleAPI_crash_pool (JArr []) ex_server) = ex_server
   \<and> code (fst (handleAPI_crash_pool (JArr []) ex_server)) = 400
   \<and> status (game (snd (handleAPI_force_crash JNull ex_server))) = Crashed
   \<and> multiplier (game (snd (handleAPI_force_crash JNull ex_server))) = Some 1.5"
  using invalid_admin_input [of "JArr []" ex_server JNull]
  by (simp add: ex_server_def doCrash_game)

text \<open>
  Claim C7 as stated fails for the forced crash: with \<open>null\<close> as its value the call
  answers 200 while the round is in flight, the phase becomes \<open>crashed\<close> and the
  history gains an entry at 1.5.
\<close>

theorem non_numeric_override_accepted:
  "parseFloat JNull = None
   \<and> code (fst (handleAPI_force_crash JNull ex_server)) = 200
   \<and> status (game ex_server) = Flying
   \<and> status (game (snd (handleAPI_force_crash JNull ex_server))) = Crashed
   \<and> history ex_server = []
   \<and> map hist_multiplier (history (snd (handleAPI_force_crash JNull ex_server))) = [Some 1.5]"
  by (simp add: handleAPI_force_crash_def js_or_def Let_def doCrash_game doCrash_history
      ex_server_def)

text \<open>
  Claim C8. With a key other than the secret, or with none, \<open>/api/signal\<close> answers 403
  with an error and leaves the whole state as it was. With the secret it answers 200, lists
  every queue entry under the positions 1, 2, ... in queue order, and reads the queue that
  \<open>peekQueue\<close> reads: both leave the same queue behind, and the first \<open>n\<close> listed
  entries are the ids and multipliers that \<open>peekQueue n\<close> returns. The round and the
  history are not touched.
\<close>

theorem signal_read_gated:
  "(key \<noteq> Some (SIGNAL_SECRET s) \<longrightarrow>
      handleAPI_signal key s = (\<lparr>code = 403, body = ErrorOnly ''Invalid signal key''\<rparr>, s))
   \<and> (key = Some (SIGNAL_SECRET s) \<longrightarrow>
        code (fst (handleAPI_signal key s)) = 200
      \<and> map fst (upcoming (body (fst (handleAPI_signal key s))))
          = [1..<Suc (length (crashQueue (snd (handleAPI_signal key s))))]
      \<and> map snd (upcoming (body (fst (handleAPI_signal key s))))
          = map (\<lambda>e. (entry_id e, entry_multiplier e)) (crashQueue (snd (handleAPI_signal key s)))
      \<and> crashQueue (snd (handleAPI_signal key s)) = crashQueue (snd (peekQueue n s))
      \<and> take n (map snd (upcoming (body (fst (handleAPI_signal key s)))))
          = map (\<lambda>r. (peek_id r, peek_multiplier r)) (fst (peekQueue n s))
      \<and> game (snd (handleAPI_signal key s)) = game s
      \<and> history (snd (handleAPI_signal key s)) = history s)"
  by (simp add: handleAPI_signal_def Let_def upcomingOf_positions upcomingOf_items fillQueue_frame
      peekQueue_def peekEntries_frame peekEntries_items take_map)

text \<open>Claim C8 at the example state, with a wrong key and with the secret.\<close>

theorem signal_read_gated_witness:
  "Some ''guess'' \<noteq> Some (SIGNAL_SECRET ex_server)
   \<and> handleAPI_signal (Some ''guess'') ex_server
       = (\<lparr>code = 403, body = ErrorOnly ''Invalid signal key''\<rparr>, ex_server)
   \<and> Some ''s3cr3t'' = Some (SIGNAL_SECRET ex_server)
   \<and> code (fst (handleAPI_signal (Some ''s3cr3t'') ex_server)) = 200
   \<and> crashQueue (snd (handleAPI_signal (Some ''s3cr3t'') ex_server))
       = crashQueue (snd (peekQueue 5 ex_server))"
  using signal_read_gated [of "Some ''guess''" ex_server 5] signal_read_gated [of "Some ''s3cr3t''" ex_server 5]
  by (simp add: ex_server_def)

text \<open>
  Claim C9. A tick that fires when the phase is no longer \<open>flying\<close>, or for another
  round than the one it was registered for, only removes its own interval: the round, the
  queue, the history, the written events and the pending timeouts are as before, and its
  handle is no longer among the live intervals.
\<close>

theorem stale_tick_noop:
  assumes "status (game s) \<noteq> Flying \<or> roundId (game s) \<noteq> cl_roundId cl"
  shows "tick cl s = s\<lparr>intervals := filter (\<lambda>c. cl_timer c \<noteq> cl_timer cl) (intervals s)\<rparr>
       \<and> game (tick cl s) = game s \<and> crashQueue (tick cl s) = crashQueue s
       \<and> history (tick cl s) = history s \<and> writes (tick cl s) = writes s
       \<and> timeouts (tick cl s) = timeouts s
       \<and> cl_timer cl \<notin> cl_timer ` set (intervals (tick cl s))"
  using assms by (auto simp: tick_def clearInterval_def)

text \<open>Claim C9 at the example state after its round has crashed.\<close>

theorem stale_tick_noop_witness:
  "status (game (ex_server\<lparr>game := (game ex_server)\<lparr>status := Crashed\<rparr>\<rparr>)) \<noteq> Flying
   \<and> ex_closure \<in> set (intervals (ex_server\<lparr>game := (game ex_server)\<lparr>status := Crashed\<rparr>\<rparr>))
   \<and> intervals (tick ex_closure (ex_server\<lparr>game := (game ex_server)\<lparr>status := Crashed\<rparr>\<rparr>)) = []
   \<and> game (tick ex_closure (ex_server\<lparr>game := (game ex_server)\<lparr>status := Crashed\<rparr>\<rparr>))
        = game (ex_server\<lparr>game := (game ex_server)\<lparr>status := Crashed\<rparr>\<rparr>)
   \<and> writes (tick ex_closure (ex_server\<lparr>game := (game ex_server)\<lparr>status := Crashed\<rparr>\<rparr>)) = []"
  using stale_tick_noop [of "ex_server\<lparr>game := (game ex_server)\<lparr>status := Crashed\<rparr>\<rparr>" ex_closure]
  by (simp add: ex_server_def ex_closure_def)

text \<open>
  Claim C10. Subscribing calls \<open>write\<close> exactly once, on the new client, with a
  \<open>heartbeat\<close> event that carries the phase in upper case and the current
  \<open>nextEventTime\<close>; it is appended to the writes at once, so it precedes every later
  broadcast. The round, the queue and the history are as before.
\<close>

theorem subscribe_sends_heartbeat:
  "writes (handleAPI_stream res s)
     = writes s @ [(res, Heartbeat (case status (game s) of Waiting \<Rightarrow> ''WAITING''
                                    | Flying \<Rightarrow> ''FLYING'' | Crashed \<Rightarrow> ''CRASHED'')
                            (nextEventTime (game s)))]
   \<and> game (handleAPI_stream res s) = game s
   \<and> crashQueue (handleAPI_stream res s) = crashQueue s
   \<and> history (handleAPI_stream res s) = history s"
  by (simp add: handleAPI_stream_def Let_def sendSSE_writes sendSSE_frame toUpperCase_status)

end
